theory Spec2Isabelle
  imports Main "HOL-Library.Multiset"
begin

section \<open>The to-do service (services/todos.ts)\<close>

subsection \<open>Values and records\<close>

text \<open>
  A property of a JavaScript object holds either a value of its declared type or
  \<open>undefined\<close>. The declared type of a \<open>Todo\<close> gives \<open>title: string\<close> and
  \<open>completed: boolean\<close>; the object spread of \<open>updateTodo\<close> can nevertheless store
  \<open>undefined\<close> in either field, so both fields carry the extra value. The fields \<open>id\<close>
  and \<open>createdAt\<close> are only ever written by \<open>createTodo\<close> and by the sample data, with
  a string and with an integer number of milliseconds.

  Strings are lists of characters; \<open>length\<close> stands for the \<open>.length\<close> of the
  JavaScript string.
\<close>

datatype 'a jsval = Undefined | Val 'a

record todo =
  todo_id :: string
  title :: "string jsval"
  completed :: "bool jsval"
  createdAt :: int

text \<open>Truthiness of a boolean-or-undefined and of a string-or-undefined value
  (\<open>!x\<close>, \<open>x ? a : b\<close>, \<open>x || y\<close>).\<close>

fun truthy_bool :: "bool jsval \<Rightarrow> bool" where
  "truthy_bool Undefined = False"
| "truthy_bool (Val b) = b"

fun truthy_str :: "string jsval \<Rightarrow> bool" where
  "truthy_str Undefined = False"
| "truthy_str (Val s) = (s \<noteq> [])"

text \<open>A value inside a template literal: \<open>`${x}`\<close>.\<close>

fun str_of :: "string jsval \<Rightarrow> string" where
  "str_of Undefined = ''undefined''"
| "str_of (Val s) = s"

subsection \<open>The JavaScript \<open>Map\<close>\<close>

text \<open>
  \<open>const todos: Map<string, Todo> = new Map()\<close>. A \<open>Map\<close> iterates in insertion
  order, and \<open>set\<close> on a key already present replaces the value where it stands; the
  order is observable through the stable sort of \<open>getAllTodos\<close>. The map is therefore
  a list of key-value pairs, oldest entry first.
\<close>

type_synonym store = "(string \<times> todo) list"

fun map_set :: "'k \<Rightarrow> 'v \<Rightarrow> ('k \<times> 'v) list \<Rightarrow> ('k \<times> 'v) list" where
  "map_set k v [] = [(k, v)]"
| "map_set k v ((k', v') # m) =
     (if k' = k then (k, v) # m else (k', v') # map_set k v m)"

fun map_get :: "'k \<Rightarrow> ('k \<times> 'v) list \<Rightarrow> 'v option" where
  "map_get k [] = None"
| "map_get k ((k', v') # m) = (if k' = k then Some v' else map_get k m)"

fun map_has :: "'k \<Rightarrow> ('k \<times> 'v) list \<Rightarrow> bool" where
  "map_has k [] = False"
| "map_has k ((k', v') # m) = (if k' = k then True else map_has k m)"

fun map_delete :: "'k \<Rightarrow> ('k \<times> 'v) list \<Rightarrow> ('k \<times> 'v) list" where
  "map_delete k [] = []"
| "map_delete k ((k', v') # m) =
     (if k' = k then map_delete k m else (k', v') # map_delete k m)"

definition map_values :: "('k \<times> 'v) list \<Rightarrow> 'v list" where
  "map_values m = map snd m"

definition map_size :: "('k \<times> 'v) list \<Rightarrow> nat" where
  "map_size m = length m"

text \<open>Every \<open>Map\<close> holds a key once; all operations above keep it so.\<close>

definition map_ok :: "('k \<times> 'v) list \<Rightarrow> bool" where
  "map_ok m = distinct (map fst m)"

subsection \<open>Numbers as decimal strings\<close>

text \<open>\<open>Number.prototype.toString()\<close> on an integer: its decimal digits, with a minus
  sign when negative.\<close>

definition digit_char :: "nat \<Rightarrow> char" where
  "digit_char d = ''0123456789'' ! d"

function string_of_nat :: "nat \<Rightarrow> string" where
  "string_of_nat n =
     (if n < 10 then [digit_char n]
      else string_of_nat (n div 10) @ [digit_char (n mod 10)])"
  by pat_completeness auto
termination
  by (relation "measure (\<lambda>n. n)") auto

declare string_of_nat.simps [simp del]

definition toString :: "int \<Rightarrow> string" where
  "toString i = (if i < 0 then CHR ''-'' # string_of_nat (nat (- i)) else string_of_nat (nat i))"

subsection \<open>Sample data and module initialisation\<close>

text \<open>
  \<open>Date.now()\<close> reads the wall clock. Each call of it in the source is an argument
  of the model, in the order the calls are made: \<open>initializeSampleTodos\<close> reads the
  clock three times, \<open>createTodo\<close> twice (first for the id, then for \<open>createdAt\<close>).
\<close>

definition sampleTodos :: "int \<Rightarrow> int \<Rightarrow> int \<Rightarrow> todo list" where
  "sampleTodos now1 now2 now3 =
     [ \<lparr>todo_id = ''1'', title = Val ''Learn about MCP'', completed = Val False, createdAt = now1\<rparr>,
       \<lparr>todo_id = ''2'', title = Val ''Build a ChatGPT app'', completed = Val False, createdAt = now2\<rparr>,
       \<lparr>todo_id = ''3'', title = Val ''Deploy to Vercel'', completed = Val False, createdAt = now3\<rparr> ]"

definition initializeSampleTodos :: "int \<Rightarrow> int \<Rightarrow> int \<Rightarrow> store \<Rightarrow> store" where
  "initializeSampleTodos now1 now2 now3 todos =
     foldl (\<lambda>m t. map_set (todo_id t) t m) todos (sampleTodos now1 now2 now3)"

text \<open>The store of a fresh process: the module body creates the empty map and runs
  \<open>if (todos.size === 0) initializeSampleTodos()\<close> on import.\<close>

definition fresh_store :: "int \<Rightarrow> int \<Rightarrow> int \<Rightarrow> store" where
  "fresh_store now1 now2 now3 =
     (let todos = [] in
      if map_size todos = 0 then initializeSampleTodos now1 now2 now3 todos else todos)"

subsection \<open>The operations\<close>

definition getAllTodos :: "store \<Rightarrow> todo list" where
  "getAllTodos todos = sort_key createdAt (map_values todos)"

definition getTodoById :: "string \<Rightarrow> store \<Rightarrow> todo option" where
  "getTodoById i todos = map_get i todos"

definition createTodo :: "int \<Rightarrow> int \<Rightarrow> string \<Rightarrow> store \<Rightarrow> todo \<times> store" where
  "createTodo now1 now2 ttl todos =
     (let i = toString now1;
          t = \<lparr>todo_id = i, title = Val ttl, completed = Val False, createdAt = now2\<rparr>
      in (t, map_set i t todos))"

text \<open>
  \<open>updates: Partial<Pick<Todo, "title" | "completed">>\<close>: each of the two keys is
  absent from the object (\<open>None\<close>) or present; a present key carries a value of the
  field's type or \<open>undefined\<close>, which the type also admits. The spread
  \<open>{...todo, ...updates}\<close> copies every key that is present, whatever it carries.
\<close>

record updates =
  u_title :: "string jsval option"
  u_completed :: "bool jsval option"

definition spread :: "todo \<Rightarrow> updates \<Rightarrow> todo" where
  "spread t u =
     t\<lparr> title := (case u_title u of None \<Rightarrow> title t | Some v \<Rightarrow> v),
        completed := (case u_completed u of None \<Rightarrow> completed t | Some v \<Rightarrow> v) \<rparr>"

definition updateTodo :: "string \<Rightarrow> updates \<Rightarrow> store \<Rightarrow> todo option \<times> store" where
  "updateTodo i u todos =
     (case map_get i todos of
        None \<Rightarrow> (None, todos)
      | Some t \<Rightarrow> (let updated = spread t u in (Some updated, map_set i updated todos)))"

definition deleteTodo :: "string \<Rightarrow> store \<Rightarrow> bool \<times> store" where
  "deleteTodo i todos = (map_has i todos, map_delete i todos)"

definition toggleTodo :: "string \<Rightarrow> store \<Rightarrow> todo option \<times> store" where
  "toggleTodo i todos =
     (case map_get i todos of
        None \<Rightarrow> (None, todos)
      | Some t \<Rightarrow>
          updateTodo i \<lparr>u_title = None, u_completed = Some (Val (\<not> truthy_bool (completed t)))\<rparr> todos)"

text \<open>The store as the operations keep it: every key once, and every todo under its
  own id.\<close>

definition store_ok :: "store \<Rightarrow> bool" where
  "store_ok st = (map_ok st \<and> list_all (\<lambda>(k, t). todo_id t = k) st)"

section \<open>The command handlers (create-server.ts)\<close>

text \<open>
  A handler receives \<open>rawParams\<close> and parses it with its zod schema; \<open>parse\<close> throws
  a \<open>ZodError\<close> when a required key is missing or a bound is violated. A parameter
  is modelled as a value of the type its schema names, or \<open>Undefined\<close> when the key is
  missing. A handler returns the thrown error or its result object, and the store as
  it leaves it.
\<close>

datatype exn = ZodError "string list"

datatype content = TextContent string

record structured =
  sc_todos :: "todo list"
  sc_message :: "string option"
  sc_newTodo :: "todo option"
  sc_updatedTodo :: "todo option"
  sc_deletedId :: "string option"

text \<open>The result object; a key the source leaves out is \<open>None\<close>
  (\<open>structuredContent\<close>) or \<open>False\<close> (\<open>isError\<close>).\<close>

record tool_result =
  content :: "content list"
  structuredContent :: "structured option"
  isError :: bool

definition only_todos :: "todo list \<Rightarrow> structured" where
  "only_todos ts =
     \<lparr>sc_todos = ts, sc_message = None, sc_newTodo = None, sc_updatedTodo = None,
      sc_deletedId = None\<rparr>"

text \<open>\<open>n !== 1 ? "s" : ""\<close>\<close>

definition plural :: "nat \<Rightarrow> string" where
  "plural n = (if n \<noteq> 1 then ''s'' else [])"

definition show_todo_list :: "store \<Rightarrow> (exn + tool_result) \<times> store" where
  "show_todo_list st =
     (let todos = getAllTodos st in
      (Inr \<lparr>content = [TextContent (''To-do list is ready! You have '' @
                 string_of_nat (length todos) @ '' task'' @ plural (length todos) @ ''.'')],
            structuredContent = Some ((only_todos todos)\<lparr>sc_message := Some ''To-do list ready''\<rparr>),
            isError = False\<rparr>, st))"

definition refresh_todos :: "store \<Rightarrow> (exn + tool_result) \<times> store" where
  "refresh_todos st =
     (let todos = getAllTodos st in
      (Inr \<lparr>content = [TextContent (''Refreshed '' @ string_of_nat (length todos) @
                 '' todo'' @ plural (length todos) @ ''.'')],
            structuredContent = Some (only_todos todos),
            isError = False\<rparr>, st))"

text \<open>\<open>z.string().min(1, "Title cannot be empty").max(200, "Title must be 200
  characters or fewer")\<close>\<close>

definition parse_title :: "string jsval \<Rightarrow> exn + string" where
  "parse_title raw =
     (case raw of
        Undefined \<Rightarrow> Inl (ZodError [''Required''])
      | Val s \<Rightarrow>
          if length s < 1 then Inl (ZodError [''Title cannot be empty''])
          else if length s > 200 then Inl (ZodError [''Title must be 200 characters or fewer''])
          else Inr s)"

text \<open>\<open>z.string()\<close>, for the \<open>id\<close> of toggle and delete.\<close>

definition parse_id :: "string jsval \<Rightarrow> exn + string" where
  "parse_id raw = (case raw of Undefined \<Rightarrow> Inl (ZodError [''Required'']) | Val s \<Rightarrow> Inr s)"

definition add_todo :: "int \<Rightarrow> int \<Rightarrow> string jsval \<Rightarrow> store \<Rightarrow> (exn + tool_result) \<times> store" where
  "add_todo now1 now2 raw st =
     (case parse_title raw of
        Inl e \<Rightarrow> (Inl e, st)
      | Inr ttl \<Rightarrow>
          (let (t, st') = createTodo now1 now2 ttl st;
               todos = getAllTodos st'
           in (Inr \<lparr>content = [TextContent (''Added to-do: '' @ [CHR 0x22] @ ttl @ [CHR 0x22])],
                    structuredContent = Some ((only_todos todos)\<lparr>sc_newTodo := Some t\<rparr>),
                    isError = False\<rparr>, st')))"

definition not_found_result :: "string \<Rightarrow> tool_result" where
  "not_found_result i =
     \<lparr>content = [TextContent (''To-do item with ID '' @ [CHR 0x22] @ i @ [CHR 0x22] @
                  '' not found.'')],
      structuredContent = None,
      isError = True\<rparr>"

definition toggle_todo :: "string jsval \<Rightarrow> store \<Rightarrow> (exn + tool_result) \<times> store" where
  "toggle_todo raw st =
     (case parse_id raw of
        Inl e \<Rightarrow> (Inl e, st)
      | Inr i \<Rightarrow>
          (case toggleTodo i st of
             (None, st') \<Rightarrow> (Inr (not_found_result i), st')
           | (Some updated, st') \<Rightarrow>
               (let todos = getAllTodos st' in
                (Inr \<lparr>content = [TextContent (''To-do '' @ [CHR 0x22] @ str_of (title updated) @
                           [CHR 0x22] @ '' marked as '' @
                           (if truthy_bool (completed updated) then ''completed'' else ''incomplete'') @
                           ''.'')],
                      structuredContent = Some ((only_todos todos)\<lparr>sc_updatedTodo := Some updated\<rparr>),
                      isError = False\<rparr>, st'))))"

text \<open>\<open>todo?.title || id\<close>\<close>

definition title_or_id :: "todo option \<Rightarrow> string \<Rightarrow> string" where
  "title_or_id t i =
     (case t of
        None \<Rightarrow> i
      | Some t' \<Rightarrow> if truthy_str (title t') then str_of (title t') else i)"

definition delete_todo :: "string jsval \<Rightarrow> store \<Rightarrow> (exn + tool_result) \<times> store" where
  "delete_todo raw st =
     (case parse_id raw of
        Inl e \<Rightarrow> (Inl e, st)
      | Inr i \<Rightarrow>
          (let t = getTodoById i st;
               (deleted, st') = deleteTodo i st
           in if \<not> deleted then (Inr (not_found_result i), st')
              else
                (let todos = getAllTodos st' in
                 (Inr \<lparr>content = [TextContent (''Deleted to-do: '' @ [CHR 0x22] @
                            title_or_id t i @ [CHR 0x22])],
                       structuredContent = Some ((only_todos todos)\<lparr>sc_deletedId := Some i\<rparr>),
                       isError = False\<rparr>, st'))))"

text \<open>
  \<open>todos.save_todo_state\<close>: the schema accepts an array of objects
  \<open>{id: string, title: string, completed: boolean, createdAt: number}\<close>. The handler
  reads nothing of the array but its length, so the type of its elements is left open.
\<close>

definition parse_snapshot :: "'a list jsval \<Rightarrow> exn + 'a list" where
  "parse_snapshot raw = (case raw of Undefined \<Rightarrow> Inl (ZodError [''Required'']) | Val xs \<Rightarrow> Inr xs)"

definition save_todo_state :: "'a list jsval \<Rightarrow> store \<Rightarrow> (exn + tool_result) \<times> store" where
  "save_todo_state raw st =
     (case parse_snapshot raw of
        Inl e \<Rightarrow> (Inl e, st)
      | Inr todosToSave \<Rightarrow>
          (let allTodos = getAllTodos st in
           (Inr \<lparr>content = [TextContent (''Saved '' @ string_of_nat (length todosToSave) @
                      '' todo'' @ plural (length todosToSave) @ ''.'')],
                 structuredContent = Some (only_todos allTodos),
                 isError = False\<rparr>, st)))"

section \<open>The HTTP server (index.ts)\<close>

subsection \<open>Responses\<close>

text \<open>The JSON-RPC error envelope \<open>{jsonrpc, error: {code, message}, id: null}\<close>; its
  \<open>id\<close> is always \<open>null\<close> in the source and is left out of the record.\<close>

record rpc_error =
  jsonrpc :: string
  code :: int
  message :: string

datatype body =
    TodoBody todo
  | TodosBody "todo list"
  | ErrorBody string
  | SuccessBody
  | RpcErrorBody rpc_error

record response =
  status :: nat
  payload :: body

text \<open>\<open>res.json(x)\<close> answers with status 200; \<open>res.status(n).json(x)\<close> with \<open>n\<close>.\<close>

definition json :: "body \<Rightarrow> response" where
  "json b = \<lparr>status = 200, payload = b\<rparr>"

definition methodNotAllowed :: response where
  "methodNotAllowed =
     \<lparr>status = 405,
      payload = RpcErrorBody \<lparr>jsonrpc = ''2.0'', code = - 32000, message = ''Method not allowed.''\<rparr>\<rparr>"

subsection \<open>The REST handlers\<close>

text \<open>
  The fields a handler destructures from \<open>req.body\<close> are values of the documented type,
  or \<open>Undefined\<close> when the body leaves the key out.
\<close>

definition get_todos :: "store \<Rightarrow> response \<times> store" where
  "get_todos st = (json (TodosBody (getAllTodos st)), st)"

text \<open>\<open>if (!title || typeof title !== "string")\<close>\<close>

definition is_string :: "string jsval \<Rightarrow> bool" where
  "is_string v = (case v of Undefined \<Rightarrow> False | Val s \<Rightarrow> True)"

definition post_todos :: "int \<Rightarrow> int \<Rightarrow> string jsval \<Rightarrow> store \<Rightarrow> response \<times> store" where
  "post_todos now1 now2 ttl st =
     (if \<not> truthy_str ttl \<or> \<not> is_string ttl
      then (\<lparr>status = 400, payload = ErrorBody ''Title is required''\<rparr>, st)
      else (let (t, st') = createTodo now1 now2 (str_of ttl) st in (json (TodoBody t), st')))"

record put_body =
  b_title :: "string jsval"
  b_completed :: "bool jsval"

text \<open>\<open>updateTodo(id, { title, completed })\<close>: the object literal has both keys,
  whatever the body held.\<close>

definition put_todo :: "string \<Rightarrow> put_body \<Rightarrow> store \<Rightarrow> response \<times> store" where
  "put_todo i b st =
     (case updateTodo i \<lparr>u_title = Some (b_title b), u_completed = Some (b_completed b)\<rparr> st of
        (None, st') \<Rightarrow> (\<lparr>status = 404, payload = ErrorBody ''Todo not found''\<rparr>, st')
      | (Some updated, st') \<Rightarrow> (json (TodoBody updated), st'))"

definition delete_todo_rest :: "string \<Rightarrow> store \<Rightarrow> response \<times> store" where
  "delete_todo_rest i st =
     (let (deleted, st') = deleteTodo i st in
      if \<not> deleted then (\<lparr>status = 404, payload = ErrorBody ''Todo not found''\<rparr>, st')
      else (json SuccessBody, st'))"

definition toggle_todo_rest :: "string \<Rightarrow> store \<Rightarrow> response \<times> store" where
  "toggle_todo_rest i st =
     (case toggleTodo i st of
        (None, st') \<Rightarrow> (\<lparr>status = 404, payload = ErrorBody ''Todo not found''\<rparr>, st')
      | (Some updated, st') \<Rightarrow> (json (TodoBody updated), st'))"

subsection \<open>Requests on the protocol endpoint\<close>

text \<open>
  What the server does with a request that Node has parsed, as far as the protocol
  endpoint \<open>/mcp\<close> is concerned, in the order the source installs its middleware and
  routes.
  \<^item> Node closes the connection of a CONNECT request itself (the server has no
    \<open>connect\<close> listener); Express never sees it.
  \<^item> \<open>express.json()\<close> reads the body of every request. When it rejects the body
    (malformed JSON is status 400, a body over the limit 413, an unsupported charset
    415) Express skips everything else and its error handler answers with that status.
    The status is the field \<open>req_body_error\<close> of the request, \<open>None\<close> when the body is
    accepted or there is none.
  \<^item> \<open>express.static\<close> answers a GET or HEAD itself when it finds the path under
    \<open>public/\<close>; whether it does is the parameter \<open>static_has\<close>.
  \<^item> \<open>cors\<close> answers every OPTIONS request itself, with status 204.
  \<^item> The routes \<open>app.post("/mcp")\<close>, \<open>app.get("/mcp")\<close> and \<open>app.delete("/mcp")\<close>, in
    this order. Express matches the path \<open>/mcp\<close> by the regular expression
    \<open>^\/mcp\/?$\<close> without regard to the case of letters, and gives a HEAD request to a
    GET route that has no HEAD handler. \<open>res.json\<close> sends the status and the body, and
    for a HEAD request the status without the body.
  \<^item> A request on \<open>/mcp\<close> that no route takes is answered by Express with 404.

  \<open>req_path\<close> is the path of the URL without the query string. A request on another
  path goes to the REST routes, which are not part of this function. Besides the
  methods of the HTTP standard, \<open>OTHER\<close> stands for any further method Node parses (those
  of WebDAV, for one); the source names none of them.
\<close>

datatype http_method =
  GET | HEAD | POST | PUT | DELETE | CONNECT | OPTIONS | TRACE | PATCH | OTHER

record request =
  req_method :: http_method
  req_path :: string
  req_body_error :: "nat option"

definition ascii_lower :: "char \<Rightarrow> char" where
  "ascii_lower c =
     (case map_of (zip ''ABCDEFGHIJKLMNOPQRSTUVWXYZ'' ''abcdefghijklmnopqrstuvwxyz'') c of
        Some l \<Rightarrow> l
      | None \<Rightarrow> c)"

definition on_mcp_path :: "string \<Rightarrow> bool" where
  "on_mcp_path p = (map ascii_lower p = ''/mcp'' \<or> map ascii_lower p = ''/mcp/'')"

datatype mcp_handler = Transport | MethodNotAllowed

definition mcp_routes :: "(http_method \<times> mcp_handler) list" where
  "mcp_routes = [(POST, Transport), (GET, MethodNotAllowed), (DELETE, MethodNotAllowed)]"

definition handles_method :: "http_method \<Rightarrow> http_method \<Rightarrow> bool" where
  "handles_method route_method m = (route_method = m \<or> (m = HEAD \<and> route_method = GET))"

fun find_route :: "(http_method \<times> mcp_handler) list \<Rightarrow> http_method \<Rightarrow> mcp_handler option" where
  "find_route [] m = None"
| "find_route ((route_method, h) # rs) m =
     (if handles_method route_method m then Some h else find_route rs m)"

text \<open>
  What the client gets: \<open>Sent r\<close> is the response \<open>r\<close>, status and JSON body;
  \<open>SentHead n\<close> is the status \<open>n\<close> with no body; \<open>ByTransport\<close> is whatever the
  transport of the MCP library answers to a POST.
\<close>

datatype outcome =
    SocketClosed
  | BodyParserError nat
  | StaticFile
  | CorsPreflight
  | OtherRoutes
  | ByTransport
  | Sent response
  | SentHead nat
  | ExpressNotFound

definition send_json :: "http_method \<Rightarrow> response \<Rightarrow> outcome" where
  "send_json m r = (if m = HEAD then SentHead (status r) else Sent r)"

definition serve :: "(string \<Rightarrow> bool) \<Rightarrow> request \<Rightarrow> outcome" where
  "serve static_has r =
     (let m = req_method r; p = req_path r in
      if m = CONNECT then SocketClosed
      else (case req_body_error r of
              Some st \<Rightarrow> BodyParserError st
            | None \<Rightarrow>
                if (m = GET \<or> m = HEAD) \<and> static_has p then StaticFile
                else if m = OPTIONS then CorsPreflight
                else if \<not> on_mcp_path p then OtherRoutes
                else (case find_route mcp_routes m of
                        None \<Rightarrow> ExpressNotFound
                      | Some Transport \<Rightarrow> ByTransport
                      | Some MethodNotAllowed \<Rightarrow> send_json m methodNotAllowed)))"

text \<open>A \<open>public/\<close> directory that holds no file.\<close>

definition no_files :: "string \<Rightarrow> bool" where
  "no_files p = False"

section \<open>Facts about the map and the clock strings\<close>

lemma map_get_map_set_same: "map_get k (map_set k v m) = Some v"
  by (induction m) auto

lemma map_get_map_set_other: "k' \<noteq> k \<Longrightarrow> map_get k' (map_set k v m) = map_get k' m"
  by (induction m) auto

lemma map_has_iff: "map_has k m \<longleftrightarrow> map_get k m \<noteq> None"
  by (induction m) (auto split: if_splits)

lemma map_delete_absent: "map_get k m = None \<Longrightarrow> map_delete k m = m"
  by (induction m) (auto split: if_splits)

lemma map_set_absent: "map_get k m = None \<Longrightarrow> map_set k v m = m @ [(k, v)]"
  by (induction m) (auto split: if_splits)

lemma map_set_present_length: "map_get k m = Some v' \<Longrightarrow> length (map_set k v m) = length m"
  by (induction m) (auto split: if_splits)

lemma map_set_map_set: "map_set k v (map_set k v' m) = map_set k v m"
  by (induction m) auto

lemma map_set_same_value: "map_get k m = Some v \<Longrightarrow> map_set k v m = m"
  by (induction m) (auto split: if_splits)

lemma fresh_store_eq:
  "fresh_store now1 now2 now3 =
     [(''1'', \<lparr>todo_id = ''1'', title = Val ''Learn about MCP'', completed = Val False, createdAt = now1\<rparr>),
      (''2'', \<lparr>todo_id = ''2'', title = Val ''Build a ChatGPT app'', completed = Val False, createdAt = now2\<rparr>),
      (''3'', \<lparr>todo_id = ''3'', title = Val ''Deploy to Vercel'', completed = Val False, createdAt = now3\<rparr>)]"
  by (simp add: fresh_store_def map_size_def initializeSampleTodos_def sampleTodos_def)

lemma toString_1700000000000: "toString 1700000000000 = ''1700000000000''"
  by (simp add: toString_def string_of_nat.simps digit_char_def)

lemma getAllTodos_sorted: "sorted (map createdAt (getAllTodos st))"
  by (simp add: getAllTodos_def)

lemma getAllTodos_mset: "mset (getAllTodos st) = mset (map_values st)"
  by (simp add: getAllTodos_def)

lemma getAllTodos_length: "length (getAllTodos st) = map_size st"
  by (simp add: getAllTodos_def map_values_def map_size_def)

lemma getAllTodos_empty: "getAllTodos st = [] \<longleftrightarrow> st = []"
proof -
  have "length (getAllTodos st) = length st"
    by (simp add: getAllTodos_length map_size_def)
  then show ?thesis by (metis length_0_conv)
qed

section \<open>The store invariant\<close>

lemma map_get_map_delete_same: "map_get k (map_delete k m) = None"
  by (induction m) auto

lemma map_get_map_delete_other: "k' \<noteq> k \<Longrightarrow> map_get k' (map_delete k m) = map_get k' m"
  by (induction m) auto

lemma map_fst_map_delete: "map fst (map_delete k m) = filter (\<lambda>k'. k' \<noteq> k) (map fst m)"
  by (induction m) auto

lemma set_map_set: "set (map_set k v m) \<subseteq> insert (k, v) (set m)"
  by (induction m) (auto split: if_splits)

lemma fst_set_map_set: "fst ` set (map_set k v m) = insert k (fst ` set m)"
proof (induction m)
  case Nil
  then show ?case by simp
next
  case (Cons p m)
  obtain k' v' where p: "p = (k', v')" by (cases p)
  show ?case
  proof (cases "k' = k")
    case True
    with p show ?thesis by simp
  next
    case False
    with p Cons.IH show ?thesis by (simp add: insert_commute)
  qed
qed

lemma map_ok_map_set: "map_ok m \<Longrightarrow> map_ok (map_set k v m)"
  unfolding map_ok_def
proof (induction m)
  case Nil
  then show ?case by simp
next
  case (Cons p m)
  obtain k' v' where p: "p = (k', v')" by (cases p)
  show ?case
  proof (cases "k' = k")
    case True
    with Cons.prems p show ?thesis by simp
  next
    case False
    have "fst ` set (map_set k v m) = insert k (fst ` set m)" by (rule fst_set_map_set)
    with False Cons p show ?thesis by auto
  qed
qed

lemma map_ok_map_delete: "map_ok m \<Longrightarrow> map_ok (map_delete k m)"
  by (simp add: map_ok_def map_fst_map_delete)

lemma set_map_delete: "set (map_delete k m) \<subseteq> set m"
  by (induction m) (auto split: if_splits)

lemma store_ok_map_set: "store_ok st \<Longrightarrow> todo_id t = k \<Longrightarrow> store_ok (map_set k t st)"
  using set_map_set [of k t st]
  by (auto simp: store_ok_def map_ok_map_set list_all_iff)

lemma store_ok_map_delete: "store_ok st \<Longrightarrow> store_ok (map_delete k st)"
  using set_map_delete [of k st]
  by (auto simp: store_ok_def map_ok_map_delete list_all_iff)

lemma store_ok_fresh: "store_ok (fresh_store now1 now2 now3)"
  by (simp add: fresh_store_eq store_ok_def map_ok_def)

lemma map_get_in_set: "map_get k m = Some v \<Longrightarrow> (k, v) \<in> set m"
  by (induction m) (auto split: if_splits)

lemma store_ok_updateTodo: "store_ok st \<Longrightarrow> store_ok (snd (updateTodo i u st))"
proof (cases "map_get i st")
  case None
  assume "store_ok st"
  with None show ?thesis by (simp add: updateTodo_def)
next
  case (Some t)
  assume ok: "store_ok st"
  from Some have "(i, t) \<in> set st" by (rule map_get_in_set)
  with ok have "todo_id t = i" by (auto simp: store_ok_def list_all_iff)
  then have "todo_id (spread t u) = i" by (simp add: spread_def)
  with ok have "store_ok (map_set i (spread t u) st)" by (rule store_ok_map_set)
  with Some show ?thesis by (simp add: updateTodo_def Let_def)
qed

text \<open>The fresh store satisfies the invariant and every operation of the service keeps
  it: no operation leaves an id twice in the store.\<close>

lemma store_ok_preserved:
  "store_ok (fresh_store now1 now2 now3)
   \<and> (store_ok st \<longrightarrow>
        store_ok (snd (createTodo n1 n2 ttl st))
        \<and> store_ok (snd (updateTodo i u st))
        \<and> store_ok (snd (deleteTodo i st))
        \<and> store_ok (snd (toggleTodo i st)))"
proof -
  have "store_ok (snd (toggleTodo i st))" if "store_ok st"
    using that store_ok_updateTodo [OF that] by (simp add: toggleTodo_def split: option.splits)
  moreover have "store_ok (snd (createTodo n1 n2 ttl st))" if "store_ok st"
    using that by (simp add: createTodo_def Let_def store_ok_map_set)
  moreover have "store_ok (snd (deleteTodo i st))" if "store_ok st"
    using that by (simp add: deleteTodo_def store_ok_map_delete)
  ultimately show ?thesis
    using store_ok_fresh store_ok_updateTodo by blast
qed

section \<open>Creating todos\<close>

text \<open>
  Claim C1 asks that \<open>createTodo\<close> assign an id distinct from every id in the store, so
  that two creations leave two todos. The id is the decimal string of the clock reading
  in milliseconds, and nothing compares it with the keys of the map. Two creations that
  read the same millisecond get the same id: below, on the fresh store, the second
  creation replaces the first todo, which is then no longer in the store, and the
  store holds four todos instead of five.
\<close>

theorem createTodo_same_millisecond_overwrites:
  "case createTodo 1700000000000 1700000000000 ''A''
          (fresh_store 1699999999000 1699999999000 1699999999000) of
     (a, st1) \<Rightarrow>
       (case createTodo 1700000000000 1700000000000 ''B'' st1 of
          (b, st2) \<Rightarrow>
            todo_id a = todo_id b \<and> title a = Val ''A'' \<and> title b = Val ''B''
            \<and> getTodoById (todo_id a) st1 = Some a
            \<and> getTodoById (todo_id a) st2 = Some b
            \<and> a \<notin> set (map_values st2)
            \<and> map_size st1 = 4 \<and> map_size st2 = 4)"
  by (simp add: createTodo_def Let_def toString_1700000000000 fresh_store_eq getTodoById_def
      map_values_def map_size_def)

text \<open>
  \<open>createTodo\<close> itself checks nothing about the title: with the empty title it returns
  a todo and the store grows from three entries to four.
\<close>

theorem createTodo_accepts_empty_title:
  "createTodo 1700000000000 1700000000001 []
       (fresh_store 1699999999000 1699999999000 1699999999000)
     = (\<lparr>todo_id = ''1700000000000'', title = Val [], completed = Val False,
         createdAt = 1700000000001\<rparr>,
        fresh_store 1699999999000 1699999999000 1699999999000 @
        [(''1700000000000'', \<lparr>todo_id = ''1700000000000'', title = Val [], completed = Val False,
           createdAt = 1700000000001\<rparr>)])
   \<and> map_size (fresh_store 1699999999000 1699999999000 1699999999000) = 3
   \<and> map_size (snd (createTodo 1700000000000 1700000000001 []
        (fresh_store 1699999999000 1699999999000 1699999999000))) = 4"
  by (simp add: createTodo_def Let_def toString_1700000000000 fresh_store_eq map_size_def)

text \<open>
  Claim C2, as the code has it: the bounds on the title are checked by the command
  handler \<open>todos.add_todo\<close>, before it calls \<open>createTodo\<close>. For a title that is empty or
  longer than 200 characters the handler fails with a \<open>ZodError\<close> carrying the
  message of the violated bound, and the store is unchanged. For a title of length 1 to
  200 the handler does not fail, and the store it leaves holds the new todo, with that
  title, under the new id. \<open>createTodo\<close> itself stores a todo for every title. The REST
  handler of \<open>POST /api/todos\<close> answers the empty title with status 400 and leaves the
  store unchanged.
\<close>

theorem add_todo_validates_title:
  "(length ttl = 0 \<or> 200 < length ttl \<longrightarrow>
      add_todo now1 now2 (Val ttl) st =
        (Inl (ZodError [if length ttl = 0 then ''Title cannot be empty''
                        else ''Title must be 200 characters or fewer'']), st))
   \<and> (1 \<le> length ttl \<and> length ttl \<le> 200 \<longrightarrow>
        isl (fst (add_todo now1 now2 (Val ttl) st)) = False
        \<and> getTodoById (toString now1) (snd (add_todo now1 now2 (Val ttl) st)) =
            Some \<lparr>todo_id = toString now1, title = Val ttl, completed = Val False,
                  createdAt = now2\<rparr>)
   \<and> getTodoById (toString now1) (snd (createTodo now1 now2 ttl st)) =
        Some \<lparr>todo_id = toString now1, title = Val ttl, completed = Val False, createdAt = now2\<rparr>
   \<and> post_todos now1 now2 (Val []) st =
        (\<lparr>status = 400, payload = ErrorBody ''Title is required''\<rparr>, st)"
  by (auto simp: add_todo_def parse_title_def createTodo_def Let_def getTodoById_def
      map_get_map_set_same post_todos_def)

theorem add_todo_validates_title_witness:
  "add_todo 1700000000000 1700000000001 (Val []) (fresh_store 0 0 0) =
     (Inl (ZodError [''Title cannot be empty'']), fresh_store 0 0 0)
   \<and> add_todo 1700000000000 1700000000001 (Val (replicate 201 CHR ''a'')) (fresh_store 0 0 0) =
     (Inl (ZodError [''Title must be 200 characters or fewer'']), fresh_store 0 0 0)
   \<and> isl (fst (add_todo 1700000000000 1700000000001 (Val ''Buy milk'') (fresh_store 0 0 0))) = False
   \<and> getTodoById ''1700000000000''
        (snd (add_todo 1700000000000 1700000000001 (Val ''Buy milk'') (fresh_store 0 0 0))) =
      Some \<lparr>todo_id = ''1700000000000'', title = Val ''Buy milk'', completed = Val False,
            createdAt = 1700000000001\<rparr>"
  using add_todo_validates_title [of "[]" 1700000000000 1700000000001 "fresh_store 0 0 0"]
    add_todo_validates_title [of "replicate 201 CHR ''a''" 1700000000000 1700000000001
      "fresh_store 0 0 0"]
    add_todo_validates_title [of "''Buy milk''" 1700000000000 1700000000001 "fresh_store 0 0 0"]
  by (simp add: toString_1700000000000)

text \<open>The REST handler has no upper bound on the title: a title of 201 characters is
  created.\<close>

lemma post_todos_accepts_long_title:
  "length ttl = 201 \<longrightarrow>
     post_todos now1 now2 (Val ttl) st =
       (json (TodoBody \<lparr>todo_id = toString now1, title = Val ttl, completed = Val False,
                        createdAt = now2\<rparr>),
        map_set (toString now1)
          \<lparr>todo_id = toString now1, title = Val ttl, completed = Val False, createdAt = now2\<rparr> st)"
  by (auto simp: post_todos_def is_string_def createTodo_def Let_def)

text \<open>
  Claim C9: for every title (those of length 1 to 200 among them), \<open>createTodo\<close> followed
  by \<open>getTodoById\<close> of the returned id yields the returned todo, with that title, with
  \<open>completed\<close> false, and with a \<open>createdAt\<close> not before a time \<open>t0\<close> read before the
  call. The clock is read three times, \<open>t0\<close>, then \<open>now1\<close> for the id, then \<open>now2\<close> for
  \<open>createdAt\<close>; the readings are assumed not to decrease.
\<close>

theorem create_then_get:
  assumes "t0 \<le> now1" and "now1 \<le> now2"
  shows "case createTodo now1 now2 ttl st of
           (t, st') \<Rightarrow>
             getTodoById (todo_id t) st' = Some t
             \<and> title t = Val ttl \<and> completed t = Val False \<and> t0 \<le> createdAt t"
  using assms by (simp add: createTodo_def getTodoById_def Let_def map_get_map_set_same)

theorem create_then_get_witness:
  "(1699999999999::int) \<le> 1700000000000 \<and> (1700000000000::int) \<le> 1700000000001
   \<and> (case createTodo 1700000000000 1700000000001 ''Buy milk'' (fresh_store 5 6 7) of
        (t, st') \<Rightarrow>
          getTodoById (todo_id t) st' = Some t
          \<and> title t = Val ''Buy milk'' \<and> completed t = Val False \<and> 1699999999999 \<le> createdAt t)"
proof -
  have h1: "(1699999999999::int) \<le> 1700000000000" by simp
  have h2: "(1700000000000::int) \<le> 1700000000001" by simp
  show ?thesis
    using h1 h2 create_then_get [OF h1 h2, of "''Buy milk''" "fresh_store 5 6 7"] by simp
qed

section \<open>Updating and toggling\<close>

text \<open>
  The parts of \<open>updateTodo\<close> that hold as the specification has them: an id that is not
  in the store gives the not-found signal and the same store; a key the update object
  does not have leaves its field as it was; a key it has with a value puts that value
  in the field; \<open>id\<close> and \<open>createdAt\<close> never change.
\<close>

lemma updateTodo_partial:
  "(getTodoById i st = Some t \<longrightarrow>
      fst (updateTodo i u st) = Some (spread t u)
      \<and> getTodoById i (snd (updateTodo i u st)) = Some (spread t u)
      \<and> todo_id (spread t u) = todo_id t \<and> createdAt (spread t u) = createdAt t
      \<and> (u_title u = None \<longrightarrow> title (spread t u) = title t)
      \<and> (u_completed u = None \<longrightarrow> completed (spread t u) = completed t)
      \<and> (\<forall>v. u_title u = Some (Val v) \<longrightarrow> title (spread t u) = Val v)
      \<and> (\<forall>v. u_completed u = Some (Val v) \<longrightarrow> completed (spread t u) = Val v)
      \<and> map_size (snd (updateTodo i u st)) = map_size st)
   \<and> (getTodoById i st = None \<longrightarrow> updateTodo i u st = (None, st))
   \<and> (j \<noteq> i \<longrightarrow> getTodoById j (snd (updateTodo i u st)) = getTodoById j st)"
  by (auto simp: updateTodo_def getTodoById_def Let_def spread_def map_get_map_set_same
      map_get_map_set_other map_size_def map_set_present_length split: option.splits)

text \<open>
  Claim C3 says that a partial update leaves every omitted field at its prior value.
  The handler of \<open>PUT /api/todos/:id\<close> destructures \<open>title\<close> and \<open>completed\<close> from the
  body and passes the object \<open>{ title, completed }\<close>, which has both keys even when the
  body left one out; the spread of \<open>updateTodo\<close> then copies \<open>undefined\<close> over the
  stored field. On the fresh store, a request with the body \<open>{"completed": true}\<close> for
  the todo \<open>"1"\<close> returns and stores a todo whose title is \<open>undefined\<close>: the title
  "Learn about MCP" is lost.
\<close>

theorem put_todo_drops_omitted_title:
  "put_todo ''1'' \<lparr>b_title = Undefined, b_completed = Val True\<rparr> (fresh_store now1 now2 now3) =
     (json (TodoBody \<lparr>todo_id = ''1'', title = Undefined, completed = Val True, createdAt = now1\<rparr>),
      [(''1'', \<lparr>todo_id = ''1'', title = Undefined, completed = Val True, createdAt = now1\<rparr>),
       (''2'', \<lparr>todo_id = ''2'', title = Val ''Build a ChatGPT app'', completed = Val False,
          createdAt = now2\<rparr>),
       (''3'', \<lparr>todo_id = ''3'', title = Val ''Deploy to Vercel'', completed = Val False,
          createdAt = now3\<rparr>)])"
  by (simp add: put_todo_def updateTodo_def spread_def Let_def fresh_store_eq)

text \<open>
  \<open>toggleTodo\<close> on a todo whose \<open>completed\<close> is a boolean, as the type \<open>Todo\<close> declares
  it: it is \<open>updateTodo\<close> with the inverted boolean, it returns and stores the todo with
  \<open>completed\<close> flipped, and a second \<open>toggleTodo\<close> returns the original todo and leaves
  the original store. For an id that is not in the store \<open>toggleTodo\<close> returns the
  not-found signal and the same store.
\<close>

lemma toggleTodo_on_boolean:
  "(getTodoById i st = Some t \<and> completed t = Val b \<longrightarrow>
      toggleTodo i st = updateTodo i \<lparr>u_title = None, u_completed = Some (Val (\<not> b))\<rparr> st
      \<and> fst (toggleTodo i st) = Some (t\<lparr>completed := Val (\<not> b)\<rparr>)
      \<and> getTodoById i (snd (toggleTodo i st)) = Some (t\<lparr>completed := Val (\<not> b)\<rparr>)
      \<and> toggleTodo i (snd (toggleTodo i st)) = (Some t, st))
   \<and> (getTodoById i st = None \<longrightarrow> toggleTodo i st = (None, st))"
  by (simp add: toggleTodo_def updateTodo_def getTodoById_def spread_def Let_def
      map_get_map_set_same map_set_map_set map_set_same_value)

text \<open>
  Claim C6 says that two calls of \<open>toggleTodo\<close> return every stored todo to its original
  \<open>completed\<close> value. The stored value need not be a boolean: the handler of
  \<open>PUT /api/todos/:id\<close> stores \<open>undefined\<close> in \<open>completed\<close> when the body leaves the key
  out (the defect of claim C3). On the fresh store, after a request with the body
  \<open>{"title": "x"}\<close> for the todo \<open>"1"\<close>, the first \<open>toggleTodo\<close> stores \<open>true\<close> and the
  second \<open>false\<close>: the todo does not return to its original \<open>completed\<close>, \<open>undefined\<close>.
\<close>

theorem toggleTodo_twice_after_put_without_completed:
  "case put_todo ''1'' \<lparr>b_title = Val ''x'', b_completed = Undefined\<rparr>
          (fresh_store now1 now2 now3) of
     (r, st) \<Rightarrow>
       getTodoById ''1'' st =
         Some \<lparr>todo_id = ''1'', title = Val ''x'', completed = Undefined, createdAt = now1\<rparr>
       \<and> fst (toggleTodo ''1'' st) =
         Some \<lparr>todo_id = ''1'', title = Val ''x'', completed = Val True, createdAt = now1\<rparr>
       \<and> fst (toggleTodo ''1'' (snd (toggleTodo ''1'' st))) =
         Some \<lparr>todo_id = ''1'', title = Val ''x'', completed = Val False, createdAt = now1\<rparr>
       \<and> getTodoById ''1'' (snd (toggleTodo ''1'' (snd (toggleTodo ''1'' st)))) \<noteq>
         getTodoById ''1'' st"
  by (simp add: put_todo_def toggleTodo_def updateTodo_def spread_def Let_def fresh_store_eq
      getTodoById_def)

section \<open>Deleting\<close>

text \<open>\<open>deleteTodo\<close> on an id in the store returns true, and the id is then absent; on an
  id that is not in the store it returns false and leaves the store as it was; no other
  id is affected.\<close>

lemma deleteTodo_present_absent:
  "(getTodoById i st \<noteq> None \<longrightarrow>
      fst (deleteTodo i st) = True \<and> getTodoById i (snd (deleteTodo i st)) = None)
   \<and> (getTodoById i st = None \<longrightarrow> deleteTodo i st = (False, st))
   \<and> (j \<noteq> i \<longrightarrow> getTodoById j (snd (deleteTodo i st)) = getTodoById j st)"
  by (simp add: deleteTodo_def getTodoById_def map_has_iff map_get_map_delete_same
      map_get_map_delete_other map_delete_absent)

section \<open>Listing\<close>

text \<open>
  Claim C8: for every store, \<open>getAllTodos\<close> returns a list that is sorted ascending by
  \<open>createdAt\<close> and holds exactly the todos of the store, each as often as the store
  holds it; it is a total function, and its result is empty exactly when the store is.
\<close>

theorem getAllTodos_sorted_complete:
  "sorted (map createdAt (getAllTodos st))
   \<and> mset (getAllTodos st) = mset (map_values st)
   \<and> (getAllTodos st = [] \<longleftrightarrow> st = [])"
  using getAllTodos_sorted getAllTodos_mset getAllTodos_empty by blast

text \<open>
  Claim C10: the store of a fresh process holds exactly the three sample todos, under
  the ids \<open>"1"\<close>, \<open>"2"\<close> and \<open>"3"\<close> in this order, each with \<open>completed\<close> false, whatever
  the clock read; \<open>getAllTodos\<close> on it returns three todos and not the empty list.
\<close>

theorem fresh_store_has_samples:
  "map fst (fresh_store now1 now2 now3) = [''1'', ''2'', ''3'']
   \<and> map todo_id (map_values (fresh_store now1 now2 now3)) = [''1'', ''2'', ''3'']
   \<and> map completed (map_values (fresh_store now1 now2 now3)) = [Val False, Val False, Val False]
   \<and> map_size (fresh_store now1 now2 now3) = 3
   \<and> length (getAllTodos (fresh_store now1 now2 now3)) = 3
   \<and> getAllTodos (fresh_store now1 now2 now3) \<noteq> []"
proof -
  have len: "length (getAllTodos (fresh_store now1 now2 now3)) = 3"
    by (simp add: getAllTodos_length map_size_def fresh_store_eq)
  then have "getAllTodos (fresh_store now1 now2 now3) \<noteq> []" by auto
  with len show ?thesis
    by (simp add: fresh_store_eq map_values_def map_size_def)
qed

section \<open>The command handlers\<close>

text \<open>
  Claim C5: for every snapshot the schema accepts, \<open>todos.save_todo_state\<close> returns the
  acknowledgement "Saved n todo(s)." together with the sorted list of the store, and the
  store it leaves is the store it was given; the store is also unchanged when the
  parameters are rejected.
\<close>

theorem save_todo_state_keeps_store:
  "save_todo_state (Val todosToSave) st =
     (Inr \<lparr>content = [TextContent (''Saved '' @ string_of_nat (length todosToSave) @
               '' todo'' @ plural (length todosToSave) @ ''.'')],
           structuredContent = Some (only_todos (getAllTodos st)),
           isError = False\<rparr>, st)
   \<and> snd (save_todo_state raw st) = st"
  by (simp add: save_todo_state_def parse_snapshot_def split: jsval.splits)

text \<open>
  Claim C7: for an id that is not in the store, the handlers \<open>todos.toggle_todo\<close> and
  \<open>todos.delete_todo\<close> do not throw; each returns a result with \<open>isError\<close> set, the
  message that the to-do item with this id was not found, and no \<open>structuredContent\<close>,
  and leaves the store as it was.
\<close>

theorem not_found_is_error_result:
  "getTodoById i st = None \<longrightarrow>
     toggle_todo (Val i) st =
       (Inr \<lparr>content = [TextContent (''To-do item with ID '' @ [CHR 0x22] @ i @ [CHR 0x22] @
                 '' not found.'')],
             structuredContent = None, isError = True\<rparr>, st)
     \<and> delete_todo (Val i) st =
       (Inr \<lparr>content = [TextContent (''To-do item with ID '' @ [CHR 0x22] @ i @ [CHR 0x22] @
                 '' not found.'')],
             structuredContent = None, isError = True\<rparr>, st)"
  by (simp add: toggle_todo_def delete_todo_def parse_id_def toggleTodo_def deleteTodo_def
      getTodoById_def not_found_result_def map_has_iff map_delete_absent)

theorem not_found_is_error_result_witness:
  "getTodoById ''9'' (fresh_store 5 6 7) = None
   \<and> toggle_todo (Val ''9'') (fresh_store 5 6 7) =
       (Inr \<lparr>content = [TextContent (''To-do item with ID '' @ [CHR 0x22] @ ''9'' @ [CHR 0x22] @
                 '' not found.'')],
             structuredContent = None, isError = True\<rparr>, fresh_store 5 6 7)
   \<and> delete_todo (Val ''9'') (fresh_store 5 6 7) =
       (Inr \<lparr>content = [TextContent (''To-do item with ID '' @ [CHR 0x22] @ ''9'' @ [CHR 0x22] @
                 '' not found.'')],
             structuredContent = None, isError = True\<rparr>, fresh_store 5 6 7)"
proof -
  have absent: "getTodoById ''9'' (fresh_store 5 6 7) = None"
    by (simp add: getTodoById_def fresh_store_eq)
  show ?thesis
    using absent not_found_is_error_result [of "''9''" "fresh_store 5 6 7"] by simp
qed

section \<open>The protocol endpoint\<close>

text \<open>
  A PUT request on \<open>/mcp\<close>, with no body, is taken by no route: Express answers it
  with its own 404, not with the error envelope.
\<close>

theorem put_on_mcp_is_not_routed:
  "PUT \<noteq> POST
   \<and> serve no_files \<lparr>req_method = PUT, req_path = ''/mcp'', req_body_error = None\<rparr> =
       ExpressNotFound
   \<and> serve no_files \<lparr>req_method = PUT, req_path = ''/mcp'', req_body_error = None\<rparr> \<noteq>
       Sent methodNotAllowed"
  by (simp add: serve_def no_files_def on_mcp_path_def ascii_lower_def mcp_routes_def
      handles_method_def)

text \<open>Some requests and their answers: the path is matched without regard to case
  and with one trailing slash allowed; HEAD gets the status alone; a body that
  \<open>express.json\<close> rejects is answered before any route.\<close>

lemma serve_examples:
  "serve no_files \<lparr>req_method = GET, req_path = ''/mcp'', req_body_error = None\<rparr> =
     Sent methodNotAllowed
   \<and> serve no_files \<lparr>req_method = DELETE, req_path = ''/MCP/'', req_body_error = None\<rparr> =
     Sent methodNotAllowed
   \<and> serve no_files \<lparr>req_method = HEAD, req_path = ''/mcp'', req_body_error = None\<rparr> =
     SentHead 405
   \<and> serve no_files \<lparr>req_method = GET, req_path = ''/mcp'', req_body_error = Some 400\<rparr> =
     BodyParserError 400
   \<and> serve no_files \<lparr>req_method = GET, req_path = ''/mcp//'', req_body_error = None\<rparr> =
     OtherRoutes"
  by (simp add: serve_def no_files_def on_mcp_path_def ascii_lower_def mcp_routes_def
      handles_method_def send_json_def methodNotAllowed_def)

text \<open>
  Claim C4, as the code has it. The server answers a request with status 405 and the
  fixed error envelope, with code -32000 and the message "Method not allowed.", exactly
  when the request is on the path \<open>/mcp\<close>, \<open>express.json\<close> has not rejected its body,
  and its method is DELETE, or GET with no static file at the path. A HEAD request in
  the place of the GET gets the status 405 without the envelope. With any other
  method a request on \<open>/mcp\<close> gets neither: POST goes to the transport, OPTIONS is
  answered by the CORS middleware, CONNECT is closed by Node, and PUT, PATCH, TRACE and
  the further methods get the 404 of Express. A body that \<open>express.json\<close> rejects is
  answered with the status of that error, whatever the method but CONNECT.
\<close>

theorem mcp_method_not_allowed_answers:
  "(serve static_has r =
      Sent \<lparr>status = 405,
            payload = RpcErrorBody \<lparr>jsonrpc = ''2.0'', code = - 32000,
                                    message = ''Method not allowed.''\<rparr>\<rparr>) =
     (on_mcp_path (req_path r) \<and> req_body_error r = None
      \<and> (req_method r = DELETE \<or> req_method r = GET \<and> \<not> static_has (req_path r)))
   \<and> (serve static_has r = SentHead 405) =
     (on_mcp_path (req_path r) \<and> req_body_error r = None
      \<and> req_method r = HEAD \<and> \<not> static_has (req_path r))
   \<and> (serve static_has r = ExpressNotFound) =
     (on_mcp_path (req_path r) \<and> req_body_error r = None
      \<and> req_method r \<in> {PUT, PATCH, TRACE, OTHER})
   \<and> (serve static_has r = ByTransport) =
     (on_mcp_path (req_path r) \<and> req_body_error r = None \<and> req_method r = POST)
   \<and> (serve static_has r = CorsPreflight) =
     (req_body_error r = None \<and> req_method r = OPTIONS)
   \<and> (serve static_has r = BodyParserError st) =
     (req_body_error r = Some st \<and> req_method r \<noteq> CONNECT)
   \<and> (serve static_has r = SocketClosed) = (req_method r = CONNECT)"
  by (cases "req_method r"; cases "req_body_error r")
    (auto simp: serve_def Let_def mcp_routes_def handles_method_def send_json_def
      methodNotAllowed_def)

end
